theory Spec2Isabelle
  imports Complex_Main
begin

section \<open>The pinball simulations: data model\<close>

text \<open>
  The two scripts \<^verbatim>\<open>pinball_2_paddles.py\<close> and \<^verbatim>\<open>pinball_template.py\<close> drive the
  pymunk physics library and the pygame window library. The scripts are Python 3 (the
  expressions \<^verbatim>\<open>1/2\<close> and \<^verbatim>\<open>1/fps\<close> are true divisions). Python floats are modelled
  as real numbers, \<^verbatim>\<open>math.pi\<close> as \<open>pi\<close>, and \<^verbatim>\<open>pymunk.inf\<close> as a value of its own.
\<close>

datatype py_error = ZeroDivisionError | AttributeError

type_synonym vec = "real \<times> real"

abbreviation vx :: "vec \<Rightarrow> real" where "vx v \<equiv> fst v"
abbreviation vy :: "vec \<Rightarrow> real" where "vy v \<equiv> snd v"

subsection \<open>\<^verbatim>\<open>unit_vector_between\<close>\<close>



section \<open>The pymunk objects the scripts create\<close>

text \<open>
  Python objects have identity: a body, a shape or a constraint is a reference into a
  heap, allocated by its constructor with a reference never used before. A space holds
  the references of the objects added to it. Only the attributes that the scripts read
  or write are fields here; constructor arguments the scripts leave out take pymunk's
  defaults (mass 0, moment 0, position and velocity zero, elasticity 0, collision type 0).
\<close>

type_synonym ref = nat

datatype pyfloat = PyFloat real | PyInf

datatype body_type = DYNAMIC | KINEMATIC | STATIC

record body =
  body_type :: body_type
  mass :: pyfloat
  moment :: pyfloat
  position :: vec
  velocity :: vec

datatype geometry = Circle real | Segment vec vec real | Poly "vec list"

record shape =
  geometry :: geometry
  shape_body :: ref
  elasticity :: real
  collision_type :: nat

datatype constraint =
    PinJoint (body_a: ref) (body_b: ref)
  | DampedRotarySpring (body_a: ref) (body_b: ref)
      (rest_angle: real) (stiffness: real) (damping: real)

text \<open>The callbacks a collision handler's \<^verbatim>\<open>begin\<close> can hold in these scripts: pymunk's
  default (always accept the collision) and the closure \<^verbatim>\<open>remove_ball\<close> of either script.\<close>

datatype callback = Default_begin | Remove_ball | Remove_ball_template

text \<open>
  The state of a run: the heap, the one space of \<^verbatim>\<open>main\<close> with its gravity, its
  \<^verbatim>\<open>static_body\<close>, the objects added to it and its collision handlers, the module
  globals \<^verbatim>\<open>l_spring\<close> and \<^verbatim>\<open>r_spring\<close> (\<open>None\<close> until \<^verbatim>\<open>setup_paddles\<close> assigns them), the
  number of calls of \<^verbatim>\<open>random.randrange\<close> so far, and the list of shape sets handed to
  \<^verbatim>\<open>space.debug_draw\<close>, one entry per call.
\<close>

record world =
  bodies_heap :: "ref \<rightharpoonup> body"
  shapes_heap :: "ref \<rightharpoonup> shape"
  constraints_heap :: "ref \<rightharpoonup> constraint"
  next_ref :: ref
  gravity :: vec
  static_body :: ref
  space_bodies :: "ref list"
  space_shapes :: "ref list"
  space_constraints :: "ref list"
  handlers :: "(nat \<times> nat) \<rightharpoonup> callback"
  l_spring :: "ref option"
  r_spring :: "ref option"
  randrange_calls :: nat
  drawn :: "ref list list"

definition collision_types :: "string \<rightharpoonup> nat" where
  "collision_types = [''ball'' \<mapsto> 0, ''boundary'' \<mapsto> 1, ''bumper'' \<mapsto> 2]"

subsection \<open>Constructors and attribute assignments\<close>

definition new_Body :: "pyfloat \<Rightarrow> pyfloat \<Rightarrow> body_type \<Rightarrow> world \<Rightarrow> ref \<times> world" where
  "new_Body m i t w =
     (next_ref w,
      w\<lparr>bodies_heap := (bodies_heap w)(next_ref w \<mapsto>
           \<lparr>body_type = t, mass = m, moment = i, position = (0, 0), velocity = (0, 0)\<rparr>),
        next_ref := Suc (next_ref w)\<rparr>)"

definition new_shape :: "geometry \<Rightarrow> ref \<Rightarrow> world \<Rightarrow> ref \<times> world" where
  "new_shape g bd w =
     (next_ref w,
      w\<lparr>shapes_heap := (shapes_heap w)(next_ref w \<mapsto>
           \<lparr>geometry = g, shape_body = bd, elasticity = 0, collision_type = 0\<rparr>),
        next_ref := Suc (next_ref w)\<rparr>)"

definition new_constraint :: "constraint \<Rightarrow> world \<Rightarrow> ref \<times> world" where
  "new_constraint c w =
     (next_ref w,
      w\<lparr>constraints_heap := (constraints_heap w)(next_ref w \<mapsto> c),
        next_ref := Suc (next_ref w)\<rparr>)"

definition set_position :: "ref \<Rightarrow> vec \<Rightarrow> world \<Rightarrow> world" where
  "set_position r p w =
     w\<lparr>bodies_heap := (bodies_heap w)(r \<mapsto> (the (bodies_heap w r))\<lparr>position := p\<rparr>)\<rparr>"

definition set_elasticity :: "ref \<Rightarrow> real \<Rightarrow> world \<Rightarrow> world" where
  "set_elasticity r e w =
     w\<lparr>shapes_heap := (shapes_heap w)(r \<mapsto> (the (shapes_heap w r))\<lparr>elasticity := e\<rparr>)\<rparr>"

definition set_collision_type :: "ref \<Rightarrow> nat \<Rightarrow> world \<Rightarrow> world" where
  "set_collision_type r t w =
     w\<lparr>shapes_heap := (shapes_heap w)(r \<mapsto> (the (shapes_heap w r))\<lparr>collision_type := t\<rparr>)\<rparr>"

fun with_rest_angle :: "real \<Rightarrow> constraint \<Rightarrow> constraint" where
  "with_rest_angle ang (DampedRotarySpring p q _ k c) = DampedRotarySpring p q ang k c"
| "with_rest_angle ang (PinJoint p q) = PinJoint p q"

definition set_rest_angle :: "ref \<Rightarrow> real \<Rightarrow> world \<Rightarrow> world" where
  "set_rest_angle r ang w =
     w\<lparr>constraints_heap :=
         (constraints_heap w)(r \<mapsto> with_rest_angle ang (the (constraints_heap w r)))\<rparr>"

subsection \<open>The space\<close>

text \<open>\<^verbatim>\<open>pymunk.Space()\<close> comes with its own static body, which is not among
  \<^verbatim>\<open>space.bodies\<close>.\<close>

definition new_Space :: "world \<Rightarrow> world" where
  "new_Space w =
     (let (sb, w) = new_Body (PyFloat 0) (PyFloat 0) STATIC w
      in w\<lparr>gravity := (0, 0), static_body := sb, space_bodies := [], space_shapes := [],
           space_constraints := [], handlers := Map.empty\<rparr>)"

definition space_add_body :: "ref \<Rightarrow> world \<Rightarrow> world" where
  "space_add_body r w = w\<lparr>space_bodies := space_bodies w @ [r]\<rparr>"

definition space_add_shape :: "ref \<Rightarrow> world \<Rightarrow> world" where
  "space_add_shape r w = w\<lparr>space_shapes := space_shapes w @ [r]\<rparr>"

definition space_add_constraint :: "ref \<Rightarrow> world \<Rightarrow> world" where
  "space_add_constraint r w = w\<lparr>space_constraints := space_constraints w @ [r]\<rparr>"

text \<open>\<^verbatim>\<open>space.remove(shape, body)\<close>. A removal asked for inside a collision callback is
  carried out by pymunk when the running step ends; the objects asked for are kept as a
  set, so asking twice removes once.\<close>

definition space_remove :: "ref \<Rightarrow> ref \<Rightarrow> world \<Rightarrow> world" where
  "space_remove sh bd w =
     w\<lparr>space_shapes := removeAll sh (space_shapes w),
       space_bodies := removeAll bd (space_bodies w)\<rparr>"

text \<open>\<^verbatim>\<open>ch = space.add_collision_handler(a, b)\<close> followed by \<^verbatim>\<open>ch.begin = f\<close>.\<close>

definition add_collision_handler :: "nat \<Rightarrow> nat \<Rightarrow> world \<Rightarrow> world" where
  "add_collision_handler ta tb w = w\<lparr>handlers := (handlers w)((ta, tb) \<mapsto> Default_begin)\<rparr>"

definition set_begin :: "nat \<Rightarrow> nat \<Rightarrow> callback \<Rightarrow> world \<Rightarrow> world" where
  "set_begin ta tb f w = w\<lparr>handlers := (handlers w)((ta, tb) \<mapsto> f)\<rparr>"

section \<open>The scripts\<close>

subsection \<open>\<^verbatim>\<open>setup_boundaries\<close> of the two-paddle script\<close>

text \<open>
  \<^verbatim>\<open>
  def remove_ball(arbiter, space, data):
      ball_shape = arbiter.shapes[0]
      space.remove(ball_shape, ball_shape.body)
      return False
  \<close>
\<close>

definition remove_ball :: "ref \<times> ref \<Rightarrow> world \<Rightarrow> world \<times> bool" where
  "remove_ball arbiter w =
     (let ball_shape = fst arbiter
      in (space_remove ball_shape (shape_body (the (shapes_heap w ball_shape))) w, False))"

definition setup_boundaries :: "world \<Rightarrow> world" where
  "setup_boundaries w0 =
     (let radius = 5;
          (s0, w) = new_shape (Segment (50, 160) (190, 85) radius) (static_body w0) w0;
          (s1, w) = new_shape (Segment (550, 160) (410, 85) radius) (static_body w) w;
          (s2, w) = new_shape (Segment (50, 160) (50, 800) radius) (static_body w) w;
          (s3, w) = new_shape (Segment (550, 800) (550, 160) radius) (static_body w) w;
          (s4, w) = new_shape (Segment (50, 800) (550, 800) radius) (static_body w) w;
          segments = [s0, s1, s2, s3, s4];
          w = fold (\<lambda>segment. set_elasticity segment 0.5) segments w;
          (out_of_bounds_segment, w) =
             new_shape (Segment (0, - 20) (700, - 20) 5) (static_body w) w;
          w = set_collision_type out_of_bounds_segment (the (collision_types ''boundary'')) w;
          w = add_collision_handler (the (collision_types ''ball''))
                (the (collision_types ''boundary'')) w;
          w = set_begin (the (collision_types ''ball''))
                (the (collision_types ''boundary'')) Remove_ball w;
          segments = segments @ [out_of_bounds_segment]
      in fold space_add_shape segments w)"

subsection \<open>\<^verbatim>\<open>setup_boundaries\<close> of the single-paddle script\<close>

definition remove_ball_template :: "ref \<times> ref \<Rightarrow> world \<Rightarrow> world \<times> bool" where
  "remove_ball_template arbiter w =
     (let ball_shape = fst arbiter
      in (space_remove ball_shape (shape_body (the (shapes_heap w ball_shape))) w, False))"

definition setup_boundaries_template :: "world \<Rightarrow> world" where
  "setup_boundaries_template w0 =
     (let radius = 5;
          (s0, w) = new_shape (Segment (50, 160) (190, 85) radius) (static_body w0) w0;
          (s1, w) = new_shape (Segment (550, 160) (410, 85) radius) (static_body w) w;
          (s2, w) = new_shape (Segment (50, 160) (50, 800) radius) (static_body w) w;
          (s3, w) = new_shape (Segment (550, 800) (550, 160) radius) (static_body w) w;
          (s4, w) = new_shape (Segment (50, 800) (550, 800) radius) (static_body w) w;
          segments = [s0, s1, s2, s3, s4];
          w = fold (\<lambda>segment. set_elasticity segment 0.5) segments w;
          (out_of_bounds_segment, w) =
             new_shape (Segment (0, - 20) (700, - 20) 5) (static_body w) w;
          w = set_collision_type out_of_bounds_segment (the (collision_types ''boundary'')) w;
          w = add_collision_handler (the (collision_types ''ball''))
                (the (collision_types ''boundary'')) w;
          w = set_begin (the (collision_types ''ball''))
                (the (collision_types ''boundary'')) Remove_ball_template w;
          segments = segments @ [out_of_bounds_segment]
      in fold space_add_shape segments w)"

subsection \<open>\<^verbatim>\<open>setup_paddles\<close>\<close>

text \<open>\<^verbatim>\<open>pymunk.moment_for_poly\<close> is the library's; it is the parameter \<open>mfp\<close>.\<close>

text \<open>The two-paddle script.\<close>

definition setup_paddles :: "(real \<Rightarrow> vec list \<Rightarrow> real) \<Rightarrow> world \<Rightarrow> world" where
  "setup_paddles mfp w0 =
     (let paddle_mass = 10000;
          stiffness = 5 * 10 ^ 10;
          damping = 2 * 10 ^ 9;
          r_rest_angle = - pi / 6;
          r_paddle_vertices = [(0, 0), (80, 0), (80, 20), (0, 20)];
          r_paddle_moment_of_inertia = mfp paddle_mass r_paddle_vertices;
          (r_paddle_body, w) =
             new_Body (PyFloat paddle_mass) (PyFloat r_paddle_moment_of_inertia) DYNAMIC w0;
          w = set_position r_paddle_body (200, 60) w;
          (r_paddle_shape, w) = new_shape (Poly r_paddle_vertices) r_paddle_body w;
          (r_paddle_joint, w) = new_Body (PyFloat 0) (PyFloat 0) STATIC w;
          w = set_position r_paddle_joint (position (the (bodies_heap w r_paddle_body))) w;
          (j, w) = new_constraint (PinJoint r_paddle_joint r_paddle_body) w;
          (rs, w) = new_constraint
             (DampedRotarySpring r_paddle_body r_paddle_joint r_rest_angle stiffness damping) w;
          w = w\<lparr>r_spring := Some rs\<rparr>;
          w = space_add_body r_paddle_body w;
          w = space_add_shape r_paddle_shape w;
          w = space_add_body r_paddle_joint w;
          w = space_add_constraint j w;
          w = space_add_constraint rs w;
          l_rest_angle = pi / 6;
          l_paddle_vertices = [(0, 0), (- 80, 0), (- 80, 20), (0, 20)];
          l_paddle_moment_of_inertia = mfp paddle_mass l_paddle_vertices;
          (l_paddle_body, w) =
             new_Body (PyFloat paddle_mass) (PyFloat l_paddle_moment_of_inertia) DYNAMIC w;
          w = set_position l_paddle_body (400, 60) w;
          (l_paddle_shape, w) = new_shape (Poly l_paddle_vertices) l_paddle_body w;
          (l_paddle_joint, w) = new_Body (PyFloat 0) (PyFloat 0) STATIC w;
          w = set_position l_paddle_joint (position (the (bodies_heap w l_paddle_body))) w;
          (j, w) = new_constraint (PinJoint l_paddle_joint l_paddle_body) w;
          (ls, w) = new_constraint
             (DampedRotarySpring l_paddle_body l_paddle_joint l_rest_angle stiffness damping) w;
          w = w\<lparr>l_spring := Some ls\<rparr>;
          w = space_add_body l_paddle_body w;
          w = space_add_shape l_paddle_shape w;
          w = space_add_body l_paddle_joint w;
          w = space_add_constraint j w
      in space_add_constraint ls w)"

text \<open>The single-paddle script \<^verbatim>\<open>pinball_template.py\<close>.\<close>

definition setup_paddles_template :: "(real \<Rightarrow> vec list \<Rightarrow> real) \<Rightarrow> world \<Rightarrow> world" where
  "setup_paddles_template mfp w0 =
     (let paddle_mass = 10000;
          stiffness = 5 * 10 ^ 10;
          damping = 2 * 10 ^ 9;
          r_rest_angle = pi / 6;
          r_paddle_vertices = [(0, 0), (- 80, 0), (- 80, 20), (0, 20)];
          r_paddle_moment_of_inertia = mfp paddle_mass r_paddle_vertices;
          (r_paddle_body, w) =
             new_Body (PyFloat paddle_mass) (PyFloat r_paddle_moment_of_inertia) DYNAMIC w0;
          w = set_position r_paddle_body (400, 60) w;
          (r_paddle_shape, w) = new_shape (Poly r_paddle_vertices) r_paddle_body w;
          (r_paddle_joint, w) = new_Body (PyFloat 0) (PyFloat 0) STATIC w;
          w = set_position r_paddle_joint (position (the (bodies_heap w r_paddle_body))) w;
          (r_pinjoint, w) = new_constraint (PinJoint r_paddle_joint r_paddle_body) w;
          (rs, w) = new_constraint
             (DampedRotarySpring r_paddle_body r_paddle_joint r_rest_angle stiffness damping) w;
          w = w\<lparr>r_spring := Some rs\<rparr>;
          w = space_add_body r_paddle_body w;
          w = space_add_shape r_paddle_shape w;
          w = space_add_body r_paddle_joint w;
          w = space_add_constraint r_pinjoint w
      in space_add_constraint rs w)"

text \<open>\<^verbatim>\<open>setup(space)\<close> of each script (the name alone is reserved in Isabelle).\<close>

definition setup_2_paddles :: "(real \<Rightarrow> vec list \<Rightarrow> real) \<Rightarrow> world \<Rightarrow> world" where
  "setup_2_paddles mfp w = setup_paddles mfp (setup_boundaries w)"

definition setup_template :: "(real \<Rightarrow> vec list \<Rightarrow> real) \<Rightarrow> world \<Rightarrow> world" where
  "setup_template mfp w = setup_paddles_template mfp (setup_boundaries_template w)"

subsection \<open>\<^verbatim>\<open>add_ball\<close> (two-paddle script only)\<close>

text \<open>The argument \<open>x\<close> is the integer that \<^verbatim>\<open>random.randrange(100, 500)\<close> returned.\<close>

definition add_ball :: "int \<Rightarrow> world \<Rightarrow> world" where
  "add_ball x w0 =
     (let (ball_body, w) = new_Body (PyFloat 1) PyInf DYNAMIC w0;
          w = set_position ball_body (of_int x, 750) w;
          (ball_shape, w) = new_shape (Circle 13) ball_body w;
          w = set_elasticity ball_shape 0.4 w;
          w = set_collision_type ball_shape (the (collision_types ''ball'')) w;
          w = space_add_body ball_body w
      in space_add_shape ball_shape w)"

subsection \<open>The main loop\<close>

text \<open>
  What one pass of \<^verbatim>\<open>while True\<close> does is a sequence of calls into pygame and pymunk;
  which calls, and in which order, depends on the events that \<^verbatim>\<open>pygame.event.get()\<close>
  returned and on nothing else. The loop body is therefore the list of its calls, and
  the calls are given their effect on the state afterwards (\<open>exec\<close>, \<open>run\<close>). A call that
  raises ends the program, so a run of the program is a run of a prefix of the list.
\<close>

datatype key = K_ESCAPE | K_SPACE | K_LEFT | K_RIGHT | K_other

datatype event = QUIT | KEYDOWN key | KEYUP key | Other_event

datatype spring_var = L_spring | R_spring

datatype action =
    Pygame_quit
  | Add_ball
  | Set_rest_angle spring_var real
  | Screen_fill
  | Debug_draw
  | Space_step real
  | Display_flip
  | Clock_tick real

definition fps :: real where
  "fps = 60"

text \<open>The body of \<^verbatim>\<open>for event in pygame.event.get()\<close> in the two-paddle script.\<close>

definition handle_event :: "event \<Rightarrow> action list" where
  "handle_event ev =
     (if ev = QUIT then [Pygame_quit]
      else if ev = KEYDOWN K_ESCAPE then [Pygame_quit] else []) @
     (if ev = KEYDOWN K_SPACE then [Add_ball] else []) @
     (if ev = KEYDOWN K_LEFT then [Set_rest_angle R_spring (pi / 4)]
      else if ev = KEYUP K_LEFT then [Set_rest_angle R_spring (- pi / 6)] else []) @
     (if ev = KEYDOWN K_RIGHT then [Set_rest_angle L_spring (- pi / 4)]
      else if ev = KEYUP K_RIGHT then [Set_rest_angle L_spring (pi / 6)] else [])"

text \<open>The same in the single-paddle script.\<close>

definition handle_event_template :: "event \<Rightarrow> action list" where
  "handle_event_template ev =
     (if ev = QUIT then [Pygame_quit]
      else if ev = KEYDOWN K_ESCAPE then [Pygame_quit] else []) @
     (if ev = KEYDOWN K_RIGHT then [Set_rest_angle R_spring (- pi / 4)]
      else if ev = KEYUP K_RIGHT then [Set_rest_angle R_spring (pi / 6)] else [])"

text \<open>The rest of the loop body, the same lines in both scripts: fill, draw, five steps of
  \<^verbatim>\<open>step / 5\<close> with \<^verbatim>\<open>step = 1/fps\<close>, flip, tick.\<close>

definition frame_tail :: "action list" where
  "frame_tail =
     [Screen_fill, Debug_draw] @
     (let step = 1 / fps in map (\<lambda>_. Space_step (step / 5)) [0..<5]) @
     [Display_flip, Clock_tick fps]"

definition main_iteration :: "event list \<Rightarrow> action list" where
  "main_iteration events = concat (map handle_event events) @ frame_tail"

definition main_iteration_template :: "event list \<Rightarrow> action list" where
  "main_iteration_template events = concat (map handle_event_template events) @ frame_tail"

text \<open>The first passes of the loop, one list of events per pass.\<close>

definition main_loop :: "event list list \<Rightarrow> action list" where
  "main_loop evss = concat (map main_iteration evss)"

definition main_loop_template :: "event list list \<Rightarrow> action list" where
  "main_loop_template evss = concat (map main_iteration_template evss)"

text \<open>The state when \<^verbatim>\<open>main\<close> reaches its loop: the module's globals are \<open>None\<close>, the space
  is new, its gravity is set, and \<^verbatim>\<open>setup\<close> has run.\<close>

definition module_state :: world where
  "module_state =
     \<lparr>bodies_heap = Map.empty, shapes_heap = Map.empty, constraints_heap = Map.empty,
      next_ref = 0, gravity = (0, 0), static_body = 0, space_bodies = [], space_shapes = [],
      space_constraints = [], handlers = Map.empty, l_spring = None, r_spring = None,
      randrange_calls = 0, drawn = []\<rparr>"

definition main_init :: "(real \<Rightarrow> vec list \<Rightarrow> real) \<Rightarrow> world" where
  "main_init mfp = setup_2_paddles mfp ((new_Space module_state)\<lparr>gravity := (0, - 900)\<rparr>)"

definition main_init_template :: "(real \<Rightarrow> vec list \<Rightarrow> real) \<Rightarrow> world" where
  "main_init_template mfp =
     setup_template mfp ((new_Space module_state)\<lparr>gravity := (0, - 900)\<rparr>)"

section \<open>The library's step\<close>

text \<open>
  \<^verbatim>\<open>space.step(dt)\<close> is pymunk's. What it computes on the bodies is a parameter of the
  model, a value of type \<open>physics\<close>: \<open>integrate\<close> gives the bodies after integration and
  constraint solving, \<open>begin_contacts\<close> the pairs of shapes found to begin touching,
  \<open>bounce\<close> the bodies after the collision response for the pairs it is given.
\<close>

record physics =
  integrate :: "real \<Rightarrow> world \<Rightarrow> (ref \<rightharpoonup> body)"
  begin_contacts :: "world \<Rightarrow> (ref \<times> ref) list"
  bounce :: "(ref \<times> ref) list \<Rightarrow> world \<Rightarrow> (ref \<rightharpoonup> body)"

fun call_begin :: "callback \<Rightarrow> ref \<times> ref \<Rightarrow> world \<Rightarrow> world \<times> bool" where
  "call_begin Default_begin arbiter w = (w, True)"
| "call_begin Remove_ball arbiter w = remove_ball arbiter w"
| "call_begin Remove_ball_template arbiter w = remove_ball_template arbiter w"

text \<open>
  Modelled from the spec: the collision dispatch and the order of a substep, which are
  the library's (sections 4.3 and 4.4). For a pair of touching shapes the pair of their
  collision types is looked up in the handler registry, in either order; a registered
  handler is called with the shapes in the order of its two types and decides whether the
  physical response is applied. Pairs are collected first and handled afterwards. A
  substep integrates and solves constraints, then detects, then dispatches, then
  responds for the pairs not suppressed.
\<close>

definition begin_collision :: "ref \<times> ref \<Rightarrow> world \<Rightarrow> world \<times> bool" where
  "begin_collision p w =
     (let t1 = collision_type (the (shapes_heap w (fst p)));
          t2 = collision_type (the (shapes_heap w (snd p)))
      in case handlers w (t1, t2) of
           Some f \<Rightarrow> call_begin f (fst p, snd p) w
         | None \<Rightarrow> (case handlers w (t2, t1) of
                      Some f \<Rightarrow> call_begin f (snd p, fst p) w
                    | None \<Rightarrow> (w, True)))"

fun dispatch :: "(ref \<times> ref) list \<Rightarrow> world \<Rightarrow> world \<times> (ref \<times> ref) list" where
  "dispatch [] w = (w, [])"
| "dispatch (p # ps) w =
     (let (w1, respond) = begin_collision p w;
          (w2, rs) = dispatch ps w1
      in (w2, if respond then p # rs else rs))"

definition space_step :: "physics \<Rightarrow> real \<Rightarrow> world \<Rightarrow> world" where
  "space_step ph dt w =
     (let w1 = w\<lparr>bodies_heap := integrate ph dt w\<rparr>;
          (w2, rs) = dispatch (begin_contacts ph w1) w1
      in w2\<lparr>bodies_heap := bounce ph rs w2\<rparr>)"


section \<open>Running the calls\<close>

text \<open>
  \<open>rnd k\<close> is what the \<open>k\<close>-th call of \<^verbatim>\<open>random.randrange(100, 500)\<close> returns. Assigning
  \<^verbatim>\<open>rest_angle\<close> on a global that is still \<open>None\<close> raises \<^verbatim>\<open>AttributeError\<close>. The pygame
  calls do not touch the space; \<^verbatim>\<open>space.debug_draw\<close> is recorded with the shapes it is
  given.
\<close>

definition spring_of :: "spring_var \<Rightarrow> world \<Rightarrow> ref option" where
  "spring_of v w = (case v of L_spring \<Rightarrow> l_spring w | R_spring \<Rightarrow> r_spring w)"

fun exec :: "physics \<Rightarrow> (nat \<Rightarrow> int) \<Rightarrow> action \<Rightarrow> world \<Rightarrow> py_error + world" where
  "exec ph rnd Pygame_quit w = Inr w"
| "exec ph rnd Add_ball w =
     Inr (add_ball (rnd (randrange_calls w)) (w\<lparr>randrange_calls := Suc (randrange_calls w)\<rparr>))"
| "exec ph rnd (Set_rest_angle v ang) w =
     (case spring_of v w of
        None \<Rightarrow> Inl AttributeError
      | Some r \<Rightarrow> Inr (set_rest_angle r ang w))"
| "exec ph rnd Screen_fill w = Inr w"
| "exec ph rnd Debug_draw w = Inr (w\<lparr>drawn := drawn w @ [space_shapes w]\<rparr>)"
| "exec ph rnd (Space_step dt) w = Inr (space_step ph dt w)"
| "exec ph rnd Display_flip w = Inr w"
| "exec ph rnd (Clock_tick f) w = Inr w"

fun run :: "physics \<Rightarrow> (nat \<Rightarrow> int) \<Rightarrow> action list \<Rightarrow> world \<Rightarrow> py_error + world" where
  "run ph rnd [] w = Inr w"
| "run ph rnd (x # xs) w =
     (case exec ph rnd x w of Inl e \<Rightarrow> Inl e | Inr w' \<Rightarrow> run ph rnd xs w')"

section \<open>Reading a sequence of calls\<close>

fun is_step :: "action \<Rightarrow> bool" where
  "is_step (Space_step dt) = True"
| "is_step _ = False"

text \<open>The external commands: spawning a ball and setting a spring's rest angle.\<close>

fun is_command :: "action \<Rightarrow> bool" where
  "is_command Add_ball = True"
| "is_command (Set_rest_angle v ang) = True"
| "is_command _ = False"

text \<open>The arguments of the calls of \<^verbatim>\<open>space.step\<close>, in order.\<close>

fun step_calls :: "action list \<Rightarrow> real list" where
  "step_calls [] = []"
| "step_calls (Space_step dt # xs) = dt # step_calls xs"
| "step_calls (_ # xs) = step_calls xs"

section \<open>Notions used in the proofs\<close>

text \<open>A state \<open>w'\<close> differs from \<open>w\<close> only by objects taken out of the space.\<close>

definition removal :: "world \<Rightarrow> world \<Rightarrow> bool" where
  "removal w w' \<longleftrightarrow>
     w' = w\<lparr>space_shapes := space_shapes w', space_bodies := space_bodies w'\<rparr> \<and>
     set (space_shapes w') \<subseteq> set (space_shapes w) \<and>
     set (space_bodies w') \<subseteq> set (space_bodies w)"

text \<open>What holds of every state of a run: the only collision handler is the one
  registered for (ball, boundary), with \<^verbatim>\<open>remove_ball\<close> as its \<^verbatim>\<open>begin\<close>; the objects in the
  space are allocated; a spring global that is set refers to a damped rotary spring.\<close>

fun is_spring :: "constraint \<Rightarrow> bool" where
  "is_spring (DampedRotarySpring p q ang k c) = True"
| "is_spring (PinJoint p q) = False"

definition scene_ok :: "world \<Rightarrow> bool" where
  "scene_ok w \<longleftrightarrow>
     (handlers w (0, 1) = Some Remove_ball \<or> handlers w (0, 1) = Some Remove_ball_template) \<and>
     (\<forall>k. k \<noteq> (0, 1) \<longrightarrow> handlers w k = None) \<and>
     (\<forall>r \<in> set (space_shapes w). r < next_ref w \<and> shapes_heap w r \<noteq> None) \<and>
     (\<forall>r sh. shapes_heap w r = Some sh \<longrightarrow> shape_body sh < next_ref w) \<and>
     (\<forall>v r. spring_of v w = Some r \<longrightarrow> (\<exists>c. constraints_heap w r = Some c \<and> is_spring c))"


text \<open>Two constraints agree on everything but a spring's rest angle.\<close>

fun same_except_rest_angle :: "constraint \<Rightarrow> constraint \<Rightarrow> bool" where
  "same_except_rest_angle (PinJoint p q) (PinJoint p' q') \<longleftrightarrow> p = p' \<and> q = q'"
| "same_except_rest_angle (DampedRotarySpring p q _ k c) (DampedRotarySpring p' q' _ k' c') \<longleftrightarrow>
     p = p' \<and> q = q' \<and> k = k' \<and> c = c'"
| "same_except_rest_angle _ _ \<longleftrightarrow> False"

definition constraints_kept :: "world \<Rightarrow> world \<Rightarrow> bool" where
  "constraints_kept w0 w \<longleftrightarrow>
     space_constraints w = space_constraints w0 \<and>
     l_spring w = l_spring w0 \<and> r_spring w = r_spring w0 \<and>
     (\<forall>r. rel_option same_except_rest_angle (constraints_heap w0 r) (constraints_heap w r))"

text \<open>A library that moves nothing and reports the given contacts in every step.\<close>

definition contacts_only :: "(ref \<times> ref) list \<Rightarrow> physics" where
  "contacts_only ps =
     \<lparr>integrate = (\<lambda>dt w. bodies_heap w), begin_contacts = (\<lambda>w. ps),
      bounce = (\<lambda>rs w. bodies_heap w)\<rparr>"

section \<open>The integrator of the specification\<close>

text \<open>
  Modelled from the spec: the integration of a substep (section 4.4), which is the
  library's and is not in the scripts. Gravity is applied as a linear acceleration to
  every body of finite mass, by semi-implicit Euler: the velocity is updated first, the
  position then moves by the new velocity. Only dynamic bodies that are in the space
  move. \<open>free_fall\<close> is the library in a scene where nothing touches: no contact, no
  response.
\<close>

definition euler_body :: "vec \<Rightarrow> real \<Rightarrow> body \<Rightarrow> body" where
  "euler_body g dt bd =
     (case mass bd of
        PyInf \<Rightarrow> bd
      | PyFloat m \<Rightarrow>
          if body_type bd = DYNAMIC then
            (let v = (vx (velocity bd) + vx g * dt, vy (velocity bd) + vy g * dt)
             in bd\<lparr>velocity := v,
                  position := (vx (position bd) + vx v * dt, vy (position bd) + vy v * dt)\<rparr>)
          else bd)"

definition free_fall :: physics where
  "free_fall =
     \<lparr>integrate = (\<lambda>dt w r. if r \<in> set (space_bodies w)
                       then map_option (euler_body (gravity w) dt) (bodies_heap w r)
                       else bodies_heap w r),
      begin_contacts = (\<lambda>w. []),
      bounce = (\<lambda>rs w. bodies_heap w)\<rparr>"

section \<open>Reading a paddle off a state\<close>

text \<open>
  A paddle actuator as \<^verbatim>\<open>setup_paddles\<close> builds it, seen from its spring: the polygon on
  the spring's first body, that body's mass, moment and position (the pivot), the anchor
  body, whether a pin joint from the anchor to the paddle body and all the parts are in
  the space, and the spring's coefficients.
\<close>

record paddle =
  vertices :: "vec list"
  paddle_mass :: pyfloat
  paddle_moment :: pyfloat
  pivot :: vec
  anchor_type :: body_type
  anchor_position :: vec
  pinned :: bool
  in_space :: bool
  spring_stiffness :: real
  spring_damping :: real
  spring_rest_angle :: real

definition paddle_of :: "world \<Rightarrow> ref \<Rightarrow> paddle option" where
  "paddle_of w r =
     (case constraints_heap w r of
        Some (DampedRotarySpring pb an ang k c) \<Rightarrow>
          (case (bodies_heap w pb, bodies_heap w an,
                 filter (\<lambda>s. map_option shape_body (shapes_heap w s) = Some pb) (space_shapes w)) of
             (Some bd, Some anchor, [s]) \<Rightarrow>
               (case map_option geometry (shapes_heap w s) of
                  Some (Poly vs) \<Rightarrow>
                    Some \<lparr>vertices = vs, paddle_mass = mass bd, paddle_moment = moment bd,
                          pivot = position bd, anchor_type = body_type anchor,
                          anchor_position = position anchor,
                          pinned = (\<exists>j \<in> set (space_constraints w).
                                      constraints_heap w j = Some (PinJoint an pb)),
                          in_space = (r \<in> set (space_constraints w) \<and>
                                      pb \<in> set (space_bodies w) \<and> an \<in> set (space_bodies w)),
                          spring_stiffness = k, spring_damping = c, spring_rest_angle = ang\<rparr>
                | _ \<Rightarrow> None)
           | _ \<Rightarrow> None)
      | _ \<Rightarrow> None)"

text \<open>The body of a ball spawned at \<open>(x, 750)\<close>, at rest, after \<open>n\<close> substeps of
  \<open>1/300\<close> s of free fall under the gravity \<open>(0, -900)\<close>, in closed form.\<close>

definition falling_ball :: "real \<Rightarrow> nat \<Rightarrow> body" where
  "falling_ball x n =
     \<lparr>body_type = DYNAMIC, mass = PyFloat 1, moment = PyInf,
      position = (x, 750 - of_nat n * (of_nat n + 1) / 200),
      velocity = (0, - 3 * of_nat n)\<rparr>"

section \<open>Degenerate geometry, in the words of the specification\<close>






section \<open>Properties\<close>

subsection \<open>The unit vector between two points\<close>







subsection \<open>Evaluating the scripts' functions\<close>

lemma add_ball_eval:
  "add_ball x w =
     w\<lparr>bodies_heap := (bodies_heap w)(next_ref w \<mapsto>
          \<lparr>body_type = DYNAMIC, mass = PyFloat 1, moment = PyInf,
           position = (of_int x, 750), velocity = (0, 0)\<rparr>),
       next_ref := Suc (Suc (next_ref w)),
       shapes_heap := (shapes_heap w)(Suc (next_ref w) \<mapsto>
          \<lparr>geometry = Circle 13, shape_body = next_ref w, elasticity = 0.4,
           collision_type = 0\<rparr>),
       space_bodies := space_bodies w @ [next_ref w],
       space_shapes := space_shapes w @ [Suc (next_ref w)]\<rparr>"
  by (simp add: add_ball_def new_Body_def new_shape_def set_position_def set_elasticity_def
      set_collision_type_def space_add_shape_def space_add_body_def collision_types_def Let_def)

lemma remove_ball_eval:
  "remove_ball arbiter w =
     (w\<lparr>space_shapes := removeAll (fst arbiter) (space_shapes w),
        space_bodies :=
          removeAll (shape_body (the (shapes_heap w (fst arbiter)))) (space_bodies w)\<rparr>,
      False)"
  by (simp add: remove_ball_def space_remove_def Let_def)

lemma remove_ball_template_eval:
  "remove_ball_template arbiter w = remove_ball arbiter w"
  by (simp add: remove_ball_def remove_ball_template_def)

lemma setup_boundaries_eval:
  "setup_boundaries w =
     w\<lparr>next_ref := next_ref w + 6,
       shapes_heap := (shapes_heap w)
         (next_ref w \<mapsto> \<lparr>geometry = Segment (50, 160) (190, 85) 5,
            shape_body = static_body w, elasticity = 0.5, collision_type = 0\<rparr>,
          next_ref w + 1 \<mapsto> \<lparr>geometry = Segment (550, 160) (410, 85) 5,
            shape_body = static_body w, elasticity = 0.5, collision_type = 0\<rparr>,
          next_ref w + 2 \<mapsto> \<lparr>geometry = Segment (50, 160) (50, 800) 5,
            shape_body = static_body w, elasticity = 0.5, collision_type = 0\<rparr>,
          next_ref w + 3 \<mapsto> \<lparr>geometry = Segment (550, 800) (550, 160) 5,
            shape_body = static_body w, elasticity = 0.5, collision_type = 0\<rparr>,
          next_ref w + 4 \<mapsto> \<lparr>geometry = Segment (50, 800) (550, 800) 5,
            shape_body = static_body w, elasticity = 0.5, collision_type = 0\<rparr>,
          next_ref w + 5 \<mapsto> \<lparr>geometry = Segment (0, - 20) (700, - 20) 5,
            shape_body = static_body w, elasticity = 0, collision_type = 1\<rparr>),
       handlers := (handlers w)((0, 1) \<mapsto> Remove_ball),
       space_shapes := space_shapes w @
         [next_ref w, next_ref w + 1, next_ref w + 2, next_ref w + 3, next_ref w + 4,
          next_ref w + 5]\<rparr>"
  by (simp add: setup_boundaries_def new_shape_def set_elasticity_def set_collision_type_def
     add_collision_handler_def set_begin_def space_add_shape_def collision_types_def Let_def
     numeral_eq_Suc)

lemma setup_boundaries_template_eval:
  "setup_boundaries_template w =
     w\<lparr>next_ref := next_ref w + 6,
       shapes_heap := (shapes_heap w)
         (next_ref w \<mapsto> \<lparr>geometry = Segment (50, 160) (190, 85) 5,
            shape_body = static_body w, elasticity = 0.5, collision_type = 0\<rparr>,
          next_ref w + 1 \<mapsto> \<lparr>geometry = Segment (550, 160) (410, 85) 5,
            shape_body = static_body w, elasticity = 0.5, collision_type = 0\<rparr>,
          next_ref w + 2 \<mapsto> \<lparr>geometry = Segment (50, 160) (50, 800) 5,
            shape_body = static_body w, elasticity = 0.5, collision_type = 0\<rparr>,
          next_ref w + 3 \<mapsto> \<lparr>geometry = Segment (550, 800) (550, 160) 5,
            shape_body = static_body w, elasticity = 0.5, collision_type = 0\<rparr>,
          next_ref w + 4 \<mapsto> \<lparr>geometry = Segment (50, 800) (550, 800) 5,
            shape_body = static_body w, elasticity = 0.5, collision_type = 0\<rparr>,
          next_ref w + 5 \<mapsto> \<lparr>geometry = Segment (0, - 20) (700, - 20) 5,
            shape_body = static_body w, elasticity = 0, collision_type = 1\<rparr>),
       handlers := (handlers w)((0, 1) \<mapsto> Remove_ball_template),
       space_shapes := space_shapes w @
         [next_ref w, next_ref w + 1, next_ref w + 2, next_ref w + 3, next_ref w + 4,
          next_ref w + 5]\<rparr>"
  by (simp add: setup_boundaries_template_def new_shape_def set_elasticity_def set_collision_type_def
     add_collision_handler_def set_begin_def space_add_shape_def collision_types_def Let_def
     numeral_eq_Suc)

lemma setup_paddles_eval:
  "setup_paddles mfp w =
     w\<lparr>next_ref := next_ref w + 10,
       bodies_heap := (bodies_heap w)
         (next_ref w \<mapsto> \<lparr>body_type = DYNAMIC, mass = PyFloat 10000,
            moment = PyFloat (mfp 10000 [(0, 0), (80, 0), (80, 20), (0, 20)]),
            position = (200, 60), velocity = (0, 0)\<rparr>,
          next_ref w + 2 \<mapsto> \<lparr>body_type = STATIC, mass = PyFloat 0, moment = PyFloat 0,
            position = (200, 60), velocity = (0, 0)\<rparr>,
          next_ref w + 5 \<mapsto> \<lparr>body_type = DYNAMIC, mass = PyFloat 10000,
            moment = PyFloat (mfp 10000 [(0, 0), (- 80, 0), (- 80, 20), (0, 20)]),
            position = (400, 60), velocity = (0, 0)\<rparr>,
          next_ref w + 7 \<mapsto> \<lparr>body_type = STATIC, mass = PyFloat 0, moment = PyFloat 0,
            position = (400, 60), velocity = (0, 0)\<rparr>),
       shapes_heap := (shapes_heap w)
         (next_ref w + 1 \<mapsto> \<lparr>geometry = Poly [(0, 0), (80, 0), (80, 20), (0, 20)],
            shape_body = next_ref w, elasticity = 0, collision_type = 0\<rparr>,
          next_ref w + 6 \<mapsto> \<lparr>geometry = Poly [(0, 0), (- 80, 0), (- 80, 20), (0, 20)],
            shape_body = next_ref w + 5, elasticity = 0, collision_type = 0\<rparr>),
       constraints_heap := (constraints_heap w)
         (next_ref w + 3 \<mapsto> PinJoint (next_ref w + 2) (next_ref w),
          next_ref w + 4 \<mapsto> DampedRotarySpring (next_ref w) (next_ref w + 2)
             (- pi / 6) (5 * 10 ^ 10) (2 * 10 ^ 9),
          next_ref w + 8 \<mapsto> PinJoint (next_ref w + 7) (next_ref w + 5),
          next_ref w + 9 \<mapsto> DampedRotarySpring (next_ref w + 5) (next_ref w + 7)
             (pi / 6) (5 * 10 ^ 10) (2 * 10 ^ 9)),
       r_spring := Some (next_ref w + 4),
       l_spring := Some (next_ref w + 9),
       space_bodies := space_bodies w @
         [next_ref w, next_ref w + 2, next_ref w + 5, next_ref w + 7],
       space_shapes := space_shapes w @ [next_ref w + 1, next_ref w + 6],
       space_constraints := space_constraints w @
         [next_ref w + 3, next_ref w + 4, next_ref w + 8, next_ref w + 9]\<rparr>"
  by (simp add: setup_paddles_def new_Body_def new_shape_def new_constraint_def set_position_def
     space_add_shape_def space_add_body_def space_add_constraint_def Let_def numeral_eq_Suc)

lemma setup_paddles_template_eval:
  "setup_paddles_template mfp w =
     w\<lparr>next_ref := next_ref w + 5,
       bodies_heap := (bodies_heap w)
         (next_ref w \<mapsto> \<lparr>body_type = DYNAMIC, mass = PyFloat 10000,
            moment = PyFloat (mfp 10000 [(0, 0), (- 80, 0), (- 80, 20), (0, 20)]),
            position = (400, 60), velocity = (0, 0)\<rparr>,
          next_ref w + 2 \<mapsto> \<lparr>body_type = STATIC, mass = PyFloat 0, moment = PyFloat 0,
            position = (400, 60), velocity = (0, 0)\<rparr>),
       shapes_heap := (shapes_heap w)
         (next_ref w + 1 \<mapsto> \<lparr>geometry = Poly [(0, 0), (- 80, 0), (- 80, 20), (0, 20)],
            shape_body = next_ref w, elasticity = 0, collision_type = 0\<rparr>),
       constraints_heap := (constraints_heap w)
         (next_ref w + 3 \<mapsto> PinJoint (next_ref w + 2) (next_ref w),
          next_ref w + 4 \<mapsto> DampedRotarySpring (next_ref w) (next_ref w + 2)
             (pi / 6) (5 * 10 ^ 10) (2 * 10 ^ 9)),
       r_spring := Some (next_ref w + 4),
       space_bodies := space_bodies w @ [next_ref w, next_ref w + 2],
       space_shapes := space_shapes w @ [next_ref w + 1],
       space_constraints := space_constraints w @ [next_ref w + 3, next_ref w + 4]\<rparr>"
  by (simp add: setup_paddles_template_def new_Body_def new_shape_def new_constraint_def
     set_position_def space_add_shape_def space_add_body_def space_add_constraint_def Let_def
     numeral_eq_Suc)

lemma new_Space_eval:
  "(new_Space module_state)\<lparr>gravity := (0, - 900)\<rparr> =
     \<lparr>bodies_heap = [0 \<mapsto> \<lparr>body_type = STATIC, mass = PyFloat 0, moment = PyFloat 0,
          position = (0, 0), velocity = (0, 0)\<rparr>],
      shapes_heap = Map.empty, constraints_heap = Map.empty,
      next_ref = 1, gravity = (0, - 900), static_body = 0,
      space_bodies = [], space_shapes = [], space_constraints = [],
      handlers = Map.empty, l_spring = None, r_spring = None,
      randrange_calls = 0, drawn = []\<rparr>"
  by (simp add: new_Space_def module_state_def new_Body_def)

lemma main_init_eval:
  "main_init mfp =
     \<lparr>bodies_heap =
        [0 \<mapsto> \<lparr>body_type = STATIC, mass = PyFloat 0, moment = PyFloat 0,
           position = (0, 0), velocity = (0, 0)\<rparr>,
         7 \<mapsto> \<lparr>body_type = DYNAMIC, mass = PyFloat 10000,
           moment = PyFloat (mfp 10000 [(0, 0), (80, 0), (80, 20), (0, 20)]),
           position = (200, 60), velocity = (0, 0)\<rparr>,
         9 \<mapsto> \<lparr>body_type = STATIC, mass = PyFloat 0, moment = PyFloat 0,
           position = (200, 60), velocity = (0, 0)\<rparr>,
         12 \<mapsto> \<lparr>body_type = DYNAMIC, mass = PyFloat 10000,
           moment = PyFloat (mfp 10000 [(0, 0), (- 80, 0), (- 80, 20), (0, 20)]),
           position = (400, 60), velocity = (0, 0)\<rparr>,
         14 \<mapsto> \<lparr>body_type = STATIC, mass = PyFloat 0, moment = PyFloat 0,
           position = (400, 60), velocity = (0, 0)\<rparr>],
      shapes_heap =
        [1 \<mapsto> \<lparr>geometry = Segment (50, 160) (190, 85) 5, shape_body = 0,
           elasticity = 1 / 2, collision_type = 0\<rparr>,
         2 \<mapsto> \<lparr>geometry = Segment (550, 160) (410, 85) 5, shape_body = 0,
           elasticity = 1 / 2, collision_type = 0\<rparr>,
         3 \<mapsto> \<lparr>geometry = Segment (50, 160) (50, 800) 5, shape_body = 0,
           elasticity = 1 / 2, collision_type = 0\<rparr>,
         4 \<mapsto> \<lparr>geometry = Segment (550, 800) (550, 160) 5, shape_body = 0,
           elasticity = 1 / 2, collision_type = 0\<rparr>,
         5 \<mapsto> \<lparr>geometry = Segment (50, 800) (550, 800) 5, shape_body = 0,
           elasticity = 1 / 2, collision_type = 0\<rparr>,
         6 \<mapsto> \<lparr>geometry = Segment (0, - 20) (700, - 20) 5, shape_body = 0,
           elasticity = 0, collision_type = 1\<rparr>,
         8 \<mapsto> \<lparr>geometry = Poly [(0, 0), (80, 0), (80, 20), (0, 20)],
           shape_body = 7, elasticity = 0, collision_type = 0\<rparr>,
         13 \<mapsto> \<lparr>geometry = Poly [(0, 0), (- 80, 0), (- 80, 20), (0, 20)],
           shape_body = 12, elasticity = 0, collision_type = 0\<rparr>],
      constraints_heap =
        [10 \<mapsto> PinJoint 9 7,
         11 \<mapsto> DampedRotarySpring 7 9 (- (pi / 6)) 50000000000 2000000000,
         15 \<mapsto> PinJoint 14 12,
         16 \<mapsto> DampedRotarySpring 12 14 (pi / 6) 50000000000 2000000000],
      next_ref = 17, gravity = (0, - 900), static_body = 0,
      space_bodies = [7, 9, 12, 14],
      space_shapes = [1, 2, 3, 4, 5, 6, 8, 13],
      space_constraints = [10, 11, 15, 16],
      handlers = [(0, 1) \<mapsto> Remove_ball], l_spring = Some 16,
      r_spring = Some 11, randrange_calls = 0, drawn = []\<rparr>"
  by (simp add: main_init_def setup_2_paddles_def new_Space_eval setup_boundaries_eval
      setup_paddles_eval del: One_nat_def)

lemma main_init_template_eval:
  "main_init_template mfp =
     \<lparr>bodies_heap =
        [0 \<mapsto> \<lparr>body_type = STATIC, mass = PyFloat 0, moment = PyFloat 0,
           position = (0, 0), velocity = (0, 0)\<rparr>,
         7 \<mapsto> \<lparr>body_type = DYNAMIC, mass = PyFloat 10000,
           moment = PyFloat (mfp 10000 [(0, 0), (- 80, 0), (- 80, 20), (0, 20)]),
           position = (400, 60), velocity = (0, 0)\<rparr>,
         9 \<mapsto> \<lparr>body_type = STATIC, mass = PyFloat 0, moment = PyFloat 0,
           position = (400, 60), velocity = (0, 0)\<rparr>],
      shapes_heap =
        [1 \<mapsto> \<lparr>geometry = Segment (50, 160) (190, 85) 5, shape_body = 0,
           elasticity = 1 / 2, collision_type = 0\<rparr>,
         2 \<mapsto> \<lparr>geometry = Segment (550, 160) (410, 85) 5, shape_body = 0,
           elasticity = 1 / 2, collision_type = 0\<rparr>,
         3 \<mapsto> \<lparr>geometry = Segment (50, 160) (50, 800) 5, shape_body = 0,
           elasticity = 1 / 2, collision_type = 0\<rparr>,
         4 \<mapsto> \<lparr>geometry = Segment (550, 800) (550, 160) 5, shape_body = 0,
           elasticity = 1 / 2, collision_type = 0\<rparr>,
         5 \<mapsto> \<lparr>geometry = Segment (50, 800) (550, 800) 5, shape_body = 0,
           elasticity = 1 / 2, collision_type = 0\<rparr>,
         6 \<mapsto> \<lparr>geometry = Segment (0, - 20) (700, - 20) 5, shape_body = 0,
           elasticity = 0, collision_type = 1\<rparr>,
         8 \<mapsto> \<lparr>geometry = Poly [(0, 0), (- 80, 0), (- 80, 20), (0, 20)],
           shape_body = 7, elasticity = 0, collision_type = 0\<rparr>],
      constraints_heap =
        [10 \<mapsto> PinJoint 9 7,
         11 \<mapsto> DampedRotarySpring 7 9 (pi / 6) 50000000000 2000000000],
      next_ref = 12, gravity = (0, - 900), static_body = 0,
      space_bodies = [7, 9],
      space_shapes = [1, 2, 3, 4, 5, 6, 8],
      space_constraints = [10, 11],
      handlers = [(0, 1) \<mapsto> Remove_ball_template], l_spring = None,
      r_spring = Some 11, randrange_calls = 0, drawn = []\<rparr>"
  by (simp add: main_init_template_def setup_template_def new_Space_eval
      setup_boundaries_template_eval setup_paddles_template_eval del: One_nat_def)

lemma main_init_scene_ok: "scene_ok (main_init mfp)"
  unfolding scene_ok_def main_init_eval
  by (auto simp: spring_of_def split: spring_var.splits if_splits)

lemma main_init_template_scene_ok: "scene_ok (main_init_template mfp)"
  unfolding scene_ok_def main_init_template_eval
  by (auto simp: spring_of_def split: spring_var.splits if_splits)

subsection \<open>What a step and a call can change\<close>

lemma removal_refl: "removal w w"
  by (simp add: removal_def)

lemma removal_trans:
  assumes "removal w w1" and "removal w1 w2"
  shows "removal w w2"
proof -
  from assms(1) have e1:
    "w1 = w\<lparr>space_shapes := space_shapes w1, space_bodies := space_bodies w1\<rparr>"
    and s1: "set (space_shapes w1) \<subseteq> set (space_shapes w)"
            "set (space_bodies w1) \<subseteq> set (space_bodies w)"
    by (simp_all add: removal_def)
  from assms(2) have e2:
    "w2 = w1\<lparr>space_shapes := space_shapes w2, space_bodies := space_bodies w2\<rparr>"
    and s2: "set (space_shapes w2) \<subseteq> set (space_shapes w1)"
            "set (space_bodies w2) \<subseteq> set (space_bodies w1)"
    by (simp_all add: removal_def)
  have "w2 = w\<lparr>space_shapes := space_shapes w2, space_bodies := space_bodies w2\<rparr>"
    by (subst e2, subst e1) simp
  with s1 s2 show ?thesis unfolding removal_def by blast
qed


lemma call_begin_removal: "removal w (fst (call_begin f arb w))"
  by (cases f) (auto simp: removal_refl remove_ball_eval remove_ball_template_eval removal_def)

lemma begin_collision_removal: "removal w (fst (begin_collision p w))"
  by (simp add: begin_collision_def Let_def call_begin_removal removal_refl split: option.splits)

lemma dispatch_removal: "removal w (fst (dispatch ps w))"
proof (induction ps arbitrary: w)
  case Nil
  show ?case by (simp add: removal_refl)
next
  case (Cons p ps)
  have "removal w (fst (begin_collision p w))" by (rule begin_collision_removal)
  moreover have
    "removal (fst (begin_collision p w)) (fst (dispatch ps (fst (begin_collision p w))))"
    by (rule Cons.IH)
  ultimately show ?case
    by (auto simp: Let_def split_def intro: removal_trans)
qed

lemma space_step_shape:
  "space_step ph dt w =
     w\<lparr>bodies_heap := bodies_heap (space_step ph dt w),
       space_shapes := space_shapes (space_step ph dt w),
       space_bodies := space_bodies (space_step ph dt w)\<rparr> \<and>
   set (space_shapes (space_step ph dt w)) \<subseteq> set (space_shapes w) \<and>
   set (space_bodies (space_step ph dt w)) \<subseteq> set (space_bodies w)"
proof -
  define w1 where "w1 = w\<lparr>bodies_heap := integrate ph dt w\<rparr>"
  define d where "d = dispatch (begin_contacts ph w1) w1"
  have r: "removal w1 (fst d)" unfolding d_def by (rule dispatch_removal)
  have st: "space_step ph dt w = (fst d)\<lparr>bodies_heap := bounce ph (snd d) (fst d)\<rparr>"
    by (simp add: space_step_def Let_def split_def w1_def d_def)
  from r have e:
    "fst d = w1\<lparr>space_shapes := space_shapes (fst d), space_bodies := space_bodies (fst d)\<rparr>"
    and s: "set (space_shapes (fst d)) \<subseteq> set (space_shapes w1)"
           "set (space_bodies (fst d)) \<subseteq> set (space_bodies w1)"
    by (simp_all add: removal_def)
  have "space_step ph dt w =
     w\<lparr>bodies_heap := bounce ph (snd d) (fst d),
       space_shapes := space_shapes (fst d), space_bodies := space_bodies (fst d)\<rparr>"
    unfolding st by (subst e) (simp add: w1_def)
  moreover have "space_shapes (space_step ph dt w) = space_shapes (fst d)"
    "space_bodies (space_step ph dt w) = space_bodies (fst d)"
    "bodies_heap (space_step ph dt w) = bounce ph (snd d) (fst d)"
    by (simp_all add: st)
  ultimately show ?thesis using s by (simp add: w1_def)
qed

lemma step_fields:
  "shapes_heap (space_step ph dt w) = shapes_heap w"
  "constraints_heap (space_step ph dt w) = constraints_heap w"
  "next_ref (space_step ph dt w) = next_ref w"
  "handlers (space_step ph dt w) = handlers w"
  "l_spring (space_step ph dt w) = l_spring w"
  "r_spring (space_step ph dt w) = r_spring w"
  "space_constraints (space_step ph dt w) = space_constraints w"
  "drawn (space_step ph dt w) = drawn w"
  "gravity (space_step ph dt w) = gravity w"
  by (subst conjunct1 [OF space_step_shape], simp)+

lemma step_subset:
  "set (space_shapes (space_step ph dt w)) \<subseteq> set (space_shapes w)"
  "set (space_bodies (space_step ph dt w)) \<subseteq> set (space_bodies w)"
  using space_step_shape [of ph dt w] by blast+

lemma spring_of_step: "spring_of v (space_step ph dt w) = spring_of v w"
  by (simp add: spring_of_def step_fields split: spring_var.splits)

lemma exec_cases:
  assumes "exec ph rnd x w = Inr w'"
  shows "w' = w \<or>
     (\<exists>i. w' = add_ball i (w\<lparr>randrange_calls := Suc (randrange_calls w)\<rparr>)) \<or>
     (\<exists>v r ang. spring_of v w = Some r \<and> w' = set_rest_angle r ang w) \<or>
     w' = w\<lparr>drawn := drawn w @ [space_shapes w]\<rparr> \<or>
     (\<exists>dt. w' = space_step ph dt w)"
  using assms by (cases x) (auto split: option.splits)

lemma exec_scene_ok:
  assumes ok: "scene_ok w" and ex: "exec ph rnd x w = Inr w'"
  shows "scene_ok w'"
proof -
  from exec_cases [OF ex] consider
      (same) "w' = w"
    | (ball) i where "w' = add_ball i (w\<lparr>randrange_calls := Suc (randrange_calls w)\<rparr>)"
    | (angle) v r ang where "spring_of v w = Some r" "w' = set_rest_angle r ang w"
    | (draw) "w' = w\<lparr>drawn := drawn w @ [space_shapes w]\<rparr>"
    | (step) dt where "w' = space_step ph dt w"
    by blast
  then show ?thesis
  proof cases
    case same
    with ok show ?thesis by simp
  next
    case ball
    with ok show ?thesis
      by (auto simp: scene_ok_def add_ball_eval spring_of_def less_Suc_eq
               split: spring_var.splits if_splits)
  next
    case angle
    from ok angle(1) obtain c where c: "constraints_heap w r = Some c" "is_spring c"
      unfolding scene_ok_def by blast
    then have "is_spring (with_rest_angle ang c)" by (cases c) simp_all
    with ok c angle show ?thesis
      by (auto simp: scene_ok_def set_rest_angle_def spring_of_def split: spring_var.splits)
  next
    case draw
    with ok show ?thesis
      by (auto simp: scene_ok_def spring_of_def split: spring_var.splits)
  next
    case step
    with ok step_subset [of ph dt w] show ?thesis
      unfolding scene_ok_def by (simp add: step_fields spring_of_step) blast
  qed
qed




subsection \<open>A ball that reaches the out-of-bounds segment\<close>







subsection \<open>Spawning a ball\<close>

text \<open>
  Claim C3. A call of \<^verbatim>\<open>add_ball\<close> adds exactly one body and exactly one shape to the
  space, both newly allocated, and no constraint. The body is dynamic with mass 1 and
  moment \<^verbatim>\<open>pymunk.inf\<close> (it never rotates), at \<open>(x, 750)\<close> where \<open>x\<close> is the value drawn by
  \<^verbatim>\<open>random.randrange(100, 500)\<close>; the shape is a circle of radius 13 on that body, with
  elasticity 0.4, which is not zero, and the collision type of \<^verbatim>\<open>"ball"\<close>. Nothing else in
  the heap changes. The loop's spawn command is one such call with the next random draw.
\<close>

theorem add_ball_creates_one_ball:
  "space_bodies (add_ball x w) = space_bodies w @ [next_ref w] \<and>
   space_shapes (add_ball x w) = space_shapes w @ [Suc (next_ref w)] \<and>
   space_constraints (add_ball x w) = space_constraints w \<and>
   bodies_heap (add_ball x w) = (bodies_heap w)(next_ref w \<mapsto>
      \<lparr>body_type = DYNAMIC, mass = PyFloat 1, moment = PyInf,
       position = (of_int x, 750), velocity = (0, 0)\<rparr>) \<and>
   shapes_heap (add_ball x w) = (shapes_heap w)(Suc (next_ref w) \<mapsto>
      \<lparr>geometry = Circle 13, shape_body = next_ref w, elasticity = 0.4,
       collision_type = the (collision_types ''ball'')\<rparr>) \<and>
   constraints_heap (add_ball x w) = constraints_heap w \<and>
   (0.4 :: real) \<noteq> 0 \<and>
   exec ph rnd Add_ball w =
     Inr (add_ball (rnd (randrange_calls w)) (w\<lparr>randrange_calls := Suc (randrange_calls w)\<rparr>))"
  by (simp add: add_ball_eval collision_types_def)

subsection \<open>The calls of one pass of the loop\<close>

lemma handle_event_no_step: "\<forall>x \<in> set (handle_event ev). \<not> is_step x"
  by (auto simp: handle_event_def)

lemma handle_event_template_no_step: "\<forall>x \<in> set (handle_event_template ev). \<not> is_step x"
  by (auto simp: handle_event_template_def)

lemma step_calls_append: "step_calls (xs @ ys) = step_calls xs @ step_calls ys"
  by (induction xs rule: step_calls.induct) simp_all

lemma step_calls_no_step: "\<forall>x \<in> set xs. \<not> is_step x \<Longrightarrow> step_calls xs = []"
  by (induction xs rule: step_calls.induct) simp_all

lemma frame_tail_eval:
  "frame_tail = [Screen_fill, Debug_draw, Space_step (1 / 300), Space_step (1 / 300),
     Space_step (1 / 300), Space_step (1 / 300), Space_step (1 / 300), Display_flip, Clock_tick 60]"
  by (simp add: frame_tail_def fps_def upt_rec)

lemma events_no_step: "\<forall>x \<in> set (concat (map handle_event events)). \<not> is_step x"
  using handle_event_no_step by auto

lemma events_template_no_step:
  "\<forall>x \<in> set (concat (map handle_event_template events)). \<not> is_step x"
  using handle_event_template_no_step by auto

lemma frame_tail_no_command: "\<forall>x \<in> set frame_tail. \<not> is_command x"
  by (simp add: frame_tail_eval)

lemma run_append:
  "run ph rnd (xs @ ys) w =
     (case run ph rnd xs w of Inl e \<Rightarrow> Inl e | Inr w' \<Rightarrow> run ph rnd ys w')"
  by (induction xs arbitrary: w) (auto split: sum.splits)

lemma run_frame_tail:
  "run ph rnd frame_tail w =
     Inr ((space_step ph ((1 / 60) / 5) ^^ 5) (w\<lparr>drawn := drawn w @ [space_shapes w]\<rparr>))"
  by (simp add: frame_tail_eval numeral_eq_Suc)


lemma commands_then_steps:
  assumes cmds: "\<forall>x \<in> set cmds. \<not> is_step x"
      and tail: "\<forall>x \<in> set rest. \<not> is_command x"
      and i: "i < length (cmds @ rest)" and j: "j < length (cmds @ rest)"
      and step: "is_step ((cmds @ rest) ! i)" and cmd: "is_command ((cmds @ rest) ! j)"
  shows "j < length cmds \<and> length cmds \<le> i"
proof (intro conjI)
  show "j < length cmds"
  proof (rule ccontr)
    assume "\<not> j < length cmds"
    then have "(cmds @ rest) ! j = rest ! (j - length cmds)" "j - length cmds < length rest"
      using j by (auto simp: nth_append)
    with tail cmd show False by (metis nth_mem)
  qed
  show "length cmds \<le> i"
  proof (rule ccontr)
    assume "\<not> length cmds \<le> i"
    then have "(cmds @ rest) ! i = cmds ! i" "i < length cmds"
      by (auto simp: nth_append)
    with cmds step show False by (metis nth_mem)
  qed
qed

text \<open>
  Claim C5. In the sequence of calls of one pass of the loop, in either script, every
  external command (spawning a ball, setting a rest angle) comes before every call of
  \<^verbatim>\<open>space.step\<close>: all commands of the frame are applied before its first substep and none
  between two substeps or after them. The substep itself is one call of the library.
\<close>

theorem commands_before_substeps:
  assumes t: "t = main_iteration events \<or> t = main_iteration_template events"
      and i: "i < length t" and j: "j < length t"
      and step: "is_step (t ! i)" and cmd: "is_command (t ! j)"
  shows "j < i"
proof -
  from t obtain cmds where c: "t = cmds @ frame_tail" "\<forall>x \<in> set cmds. \<not> is_step x"
    unfolding main_iteration_def main_iteration_template_def
    using events_no_step events_template_no_step by blast
  from commands_then_steps [OF c(2) frame_tail_no_command] i j step cmd
  show ?thesis unfolding c(1) by fastforce
qed

theorem commands_before_substeps_witness:
  "main_iteration [KEYDOWN K_SPACE, KEYUP K_LEFT] ! 0 = Add_ball \<and>
   main_iteration [KEYDOWN K_SPACE, KEYUP K_LEFT] ! 1 = Set_rest_angle R_spring (- pi / 6) \<and>
   main_iteration [KEYDOWN K_SPACE, KEYUP K_LEFT] ! 4 = Space_step (1 / 300) \<and>
   (1::nat) < 4"
  using commands_before_substeps
    [of "main_iteration [KEYDOWN K_SPACE, KEYUP K_LEFT]" "[KEYDOWN K_SPACE, KEYUP K_LEFT]" 4 1]
  by (simp add: main_iteration_def handle_event_def frame_tail_eval)

subsection \<open>The constraints of the paddles\<close>

lemma same_except_refl: "same_except_rest_angle c c"
  by (cases c) simp_all

lemma same_except_with:
  "same_except_rest_angle c0 c \<Longrightarrow> same_except_rest_angle c0 (with_rest_angle ang c)"
  by (cases c0; cases c) simp_all

lemma constraints_kept_refl: "constraints_kept w w"
  by (simp add: constraints_kept_def option.rel_refl same_except_refl)

lemma exec_constraints_kept:
  assumes k: "constraints_kept w0 w" and ok: "scene_ok w" and ex: "exec ph rnd x w = Inr w'"
  shows "constraints_kept w0 w'"
proof -
  from exec_cases [OF ex] consider
      (same) "w' = w"
    | (ball) i where "w' = add_ball i (w\<lparr>randrange_calls := Suc (randrange_calls w)\<rparr>)"
    | (angle) v r ang where "spring_of v w = Some r" "w' = set_rest_angle r ang w"
    | (draw) "w' = w\<lparr>drawn := drawn w @ [space_shapes w]\<rparr>"
    | (step) dt where "w' = space_step ph dt w"
    by blast
  then show ?thesis
  proof cases
    case same
    with k show ?thesis by simp
  next
    case ball
    with k show ?thesis by (simp add: constraints_kept_def add_ball_eval)
  next
    case angle
    from ok angle(1) obtain c where c: "constraints_heap w r = Some c"
      unfolding scene_ok_def by blast
    have "rel_option same_except_rest_angle (constraints_heap w0 r')
            (constraints_heap (set_rest_angle r ang w) r')" for r'
    proof (cases "r' = r")
      case False
      with k show ?thesis by (simp add: constraints_kept_def set_rest_angle_def)
    next
      case True
      from k have "rel_option same_except_rest_angle (constraints_heap w0 r) (constraints_heap w r)"
        by (simp add: constraints_kept_def)
      then show ?thesis unfolding True
        by (cases "constraints_heap w0 r") (simp_all add: c set_rest_angle_def same_except_with)
    qed
    with k angle show ?thesis by (simp add: constraints_kept_def set_rest_angle_def)
  next
    case draw
    with k show ?thesis by (simp add: constraints_kept_def)
  next
    case step
    with k show ?thesis by (simp add: constraints_kept_def step_fields)
  qed
qed

lemma run_constraints_kept:
  "constraints_kept w0 w \<Longrightarrow> scene_ok w \<Longrightarrow> run ph rnd xs w = Inr w' \<Longrightarrow>
   constraints_kept w0 w'"
proof (induction xs arbitrary: w)
  case Nil
  then show ?case by simp
next
  case (Cons x xs)
  from Cons.prems(3) obtain w1 where x: "exec ph rnd x w = Inr w1"
    and xs: "run ph rnd xs w1 = Inr w'"
    by (auto split: sum.splits)
  from Cons.prems(1,2) x have "constraints_kept w0 w1" by (rule exec_constraints_kept)
  moreover from Cons.prems(2) x have "scene_ok w1" by (rule exec_scene_ok)
  ultimately show ?case using xs by (rule Cons.IH)
qed

text \<open>The springs a list of calls assigns to are set.\<close>

lemma exec_total:
  assumes "\<forall>v ang. x = Set_rest_angle v ang \<longrightarrow> spring_of v w \<noteq> None"
  shows "\<exists>w'. exec ph rnd x w = Inr w'"
  using assms by (cases x) (auto split: option.splits)

lemma exec_springs:
  assumes "exec ph rnd x w = Inr w'"
  shows "l_spring w' = l_spring w \<and> r_spring w' = r_spring w"
  using exec_cases [OF assms]
  by (auto simp: add_ball_eval set_rest_angle_def step_fields)

lemma exec_spring_of:
  assumes "exec ph rnd x w = Inr w'"
  shows "spring_of v w' = spring_of v w"
  using exec_springs [OF assms] by (cases v) (simp_all add: spring_of_def)

lemma run_total:
  assumes "\<forall>v ang. Set_rest_angle v ang \<in> set xs \<longrightarrow> spring_of v w \<noteq> None"
  shows "\<exists>w'. run ph rnd xs w = Inr w'"
  using assms
proof (induction xs arbitrary: w)
  case Nil
  then show ?case by simp
next
  case (Cons x xs)
  from Cons.prems have "\<forall>v ang. x = Set_rest_angle v ang \<longrightarrow> spring_of v w \<noteq> None"
    by auto
  from exec_total [OF this] obtain w1 where x: "exec ph rnd x w = Inr w1" by blast
  from Cons.prems have "\<forall>v ang. Set_rest_angle v ang \<in> set xs \<longrightarrow> spring_of v w1 \<noteq> None"
    by (auto simp: exec_spring_of [OF x])
  from Cons.IH [OF this] x show ?case by simp
qed

lemma main_loop_template_springs:
  "Set_rest_angle v ang \<in> set (main_loop_template evss) \<Longrightarrow> v = R_spring"
  by (auto simp: main_loop_template_def main_iteration_template_def handle_event_template_def
        frame_tail_eval split: if_splits)

text \<open>
  Claim C4. From the state in which \<^verbatim>\<open>main\<close> enters its loop, in either script, the loop
  never fails on a spring global that is unset, and after any sequence of calls (event
  handling, spawned balls, drawing, substeps with any library behaviour on the bodies)
  the space holds the same constraints as after setup, the globals \<^verbatim>\<open>l_spring\<close> and
  \<^verbatim>\<open>r_spring\<close> refer to the same objects, and every constraint created at setup is still
  the same pin joint or the same spring with the same two bodies, stiffness and damping:
  only a spring's rest angle can differ.
\<close>

theorem constraints_persist:
  assumes "w0 = main_init mfp \<and> loop = main_loop evss \<or>
           w0 = main_init_template mfp \<and> loop = main_loop_template evss"
  shows "(\<exists>w. run ph rnd loop w0 = Inr w) \<and>
         (\<forall>acts w. run ph rnd acts w0 = Inr w \<longrightarrow>
            space_constraints w = space_constraints w0 \<and>
            l_spring w = l_spring w0 \<and> r_spring w = r_spring w0 \<and>
            (\<forall>r \<in> set (space_constraints w0). \<exists>c0 c.
               constraints_heap w0 r = Some c0 \<and> constraints_heap w r = Some c \<and>
               same_except_rest_angle c0 c))"
proof (rule conjI)
  from assms show "\<exists>w. run ph rnd loop w0 = Inr w"
  proof (elim disjE conjE)
    assume "w0 = main_init mfp" "loop = main_loop evss"
    then show ?thesis
      by (intro run_total) (simp add: main_init_eval spring_of_def split: spring_var.splits)
  next
    assume "w0 = main_init_template mfp" "loop = main_loop_template evss"
    then show ?thesis
      by (intro run_total)
         (auto simp: main_init_template_eval spring_of_def dest: main_loop_template_springs)
  qed
next
  show "\<forall>acts w. run ph rnd acts w0 = Inr w \<longrightarrow>
            space_constraints w = space_constraints w0 \<and>
            l_spring w = l_spring w0 \<and> r_spring w = r_spring w0 \<and>
            (\<forall>r \<in> set (space_constraints w0). \<exists>c0 c.
               constraints_heap w0 r = Some c0 \<and> constraints_heap w r = Some c \<and>
               same_except_rest_angle c0 c)"
  proof (intro allI impI)
  fix acts w
  assume run: "run ph rnd acts w0 = Inr w"
  from assms have ok: "scene_ok w0"
    using main_init_scene_ok main_init_template_scene_ok by blast
  from constraints_kept_refl ok run have k: "constraints_kept w0 w"
    by (rule run_constraints_kept)
  have "\<exists>c0 c. constraints_heap w0 r = Some c0 \<and> constraints_heap w r = Some c \<and>
          same_except_rest_angle c0 c" if "r \<in> set (space_constraints w0)" for r
  proof -
    from assms that have "constraints_heap w0 r \<noteq> None"
      by (auto simp: main_init_eval main_init_template_eval)
    moreover from k have "rel_option same_except_rest_angle (constraints_heap w0 r)
        (constraints_heap w r)"
      by (simp add: constraints_kept_def)
    ultimately show ?thesis
      by (cases "constraints_heap w0 r"; cases "constraints_heap w r") simp_all
  qed
  with k show "space_constraints w = space_constraints w0 \<and>
            l_spring w = l_spring w0 \<and> r_spring w = r_spring w0 \<and>
            (\<forall>r \<in> set (space_constraints w0). \<exists>c0 c.
               constraints_heap w0 r = Some c0 \<and> constraints_heap w r = Some c \<and>
               same_except_rest_angle c0 c)"
    by (simp add: constraints_kept_def)
  qed
qed

theorem constraints_persist_witness:
  "\<exists>w. run (contacts_only []) (\<lambda>k. 300) [Set_rest_angle R_spring (pi / 4)]
          (main_init (\<lambda>m vs. 1)) = Inr w \<and>
       11 \<in> set (space_constraints (main_init (\<lambda>m vs. 1))) \<and>
       constraints_heap (main_init (\<lambda>m vs. 1)) 11 =
         Some (DampedRotarySpring 7 9 (- (pi / 6)) 50000000000 2000000000) \<and>
       constraints_heap w 11 = Some (DampedRotarySpring 7 9 (pi / 4) 50000000000 2000000000) \<and>
       space_constraints w = [10, 11, 15, 16]"
  using constraints_persist [of "main_init (\<lambda>m vs. 1)" "\<lambda>m vs. 1" "main_loop [[KEYDOWN K_LEFT]]"
      "[[KEYDOWN K_LEFT]]" "contacts_only []" "\<lambda>k. 300"]
  by (simp add: main_init_eval spring_of_def set_rest_angle_def)

subsection \<open>The single-paddle script as an instance of the two-paddle script\<close>

text \<open>
  Claim C8. On every state, \<^verbatim>\<open>setup_boundaries\<close> of the single-paddle script builds what
  \<^verbatim>\<open>setup_boundaries\<close> of the two-paddle script builds: the same six segments and a
  handler for the same pair of collision types whose \<^verbatim>\<open>begin\<close> callback behaves the same.
  The one paddle of the single-paddle script (found through its global \<^verbatim>\<open>r_spring\<close>) has
  vertices \<open>(0,0), (-80,0), (-80,20), (0,20)\<close>, mass 10000, pivot \<open>(400, 60)\<close>, a static
  anchor there, a pin joint, stiffness \<open>5E10\<close>, damping \<open>2E9\<close> and rest angle \<open>pi/6\<close>, and
  is equal to the paddle at \<open>(400, 60)\<close> of the two-paddle script (found through its
  global \<^verbatim>\<open>l_spring\<close>). Both are driven by the right arrow key with the same angles.
\<close>

theorem template_is_instance:
  "setup_boundaries_template w =
     (setup_boundaries w)\<lparr>handlers := (handlers w)((0, 1) \<mapsto> Remove_ball_template)\<rparr> \<and>
   handlers (setup_boundaries w) = (handlers w)((0, 1) \<mapsto> Remove_ball) \<and>
   call_begin Remove_ball_template = call_begin Remove_ball \<and>
   paddle_of (main_init_template mfp) (the (r_spring (main_init_template mfp))) =
     Some \<lparr>vertices = [(0, 0), (- 80, 0), (- 80, 20), (0, 20)],
           paddle_mass = PyFloat 10000,
           paddle_moment = PyFloat (mfp 10000 [(0, 0), (- 80, 0), (- 80, 20), (0, 20)]),
           pivot = (400, 60), anchor_type = STATIC, anchor_position = (400, 60),
           pinned = True, in_space = True,
           spring_stiffness = 5 * 10 ^ 10, spring_damping = 2 * 10 ^ 9,
           spring_rest_angle = pi / 6\<rparr> \<and>
   paddle_of (main_init mfp) (the (l_spring (main_init mfp))) =
     paddle_of (main_init_template mfp) (the (r_spring (main_init_template mfp))) \<and>
   handle_event_template (KEYDOWN K_RIGHT) = [Set_rest_angle R_spring (- pi / 4)] \<and>
   handle_event (KEYDOWN K_RIGHT) = [Set_rest_angle L_spring (- pi / 4)] \<and>
   handle_event_template (KEYUP K_RIGHT) = [Set_rest_angle R_spring (pi / 6)] \<and>
   handle_event (KEYUP K_RIGHT) = [Set_rest_angle L_spring (pi / 6)]"
proof -
  have a: "setup_boundaries_template w =
     (setup_boundaries w)\<lparr>handlers := (handlers w)((0, 1) \<mapsto> Remove_ball_template)\<rparr>"
    by (simp add: setup_boundaries_eval setup_boundaries_template_eval)
  have b: "handlers (setup_boundaries w) = (handlers w)((0, 1) \<mapsto> Remove_ball)"
    by (simp add: setup_boundaries_eval)
  have c: "call_begin Remove_ball_template = call_begin Remove_ball"
    by (intro ext) (simp add: remove_ball_template_eval)
  have d: "paddle_of (main_init_template mfp) (the (r_spring (main_init_template mfp))) =
     Some \<lparr>vertices = [(0, 0), (- 80, 0), (- 80, 20), (0, 20)],
           paddle_mass = PyFloat 10000,
           paddle_moment = PyFloat (mfp 10000 [(0, 0), (- 80, 0), (- 80, 20), (0, 20)]),
           pivot = (400, 60), anchor_type = STATIC, anchor_position = (400, 60),
           pinned = True, in_space = True,
           spring_stiffness = 5 * 10 ^ 10, spring_damping = 2 * 10 ^ 9,
           spring_rest_angle = pi / 6\<rparr>"
    by (simp add: main_init_template_eval paddle_of_def)
  have e: "paddle_of (main_init mfp) (the (l_spring (main_init mfp))) =
     Some \<lparr>vertices = [(0, 0), (- 80, 0), (- 80, 20), (0, 20)],
           paddle_mass = PyFloat 10000,
           paddle_moment = PyFloat (mfp 10000 [(0, 0), (- 80, 0), (- 80, 20), (0, 20)]),
           pivot = (400, 60), anchor_type = STATIC, anchor_position = (400, 60),
           pinned = True, in_space = True,
           spring_stiffness = 5 * 10 ^ 10, spring_damping = 2 * 10 ^ 9,
           spring_rest_angle = pi / 6\<rparr>"
    by (simp add: main_init_eval paddle_of_def)
  have f: "handle_event_template (KEYDOWN K_RIGHT) = [Set_rest_angle R_spring (- pi / 4)]"
    "handle_event (KEYDOWN K_RIGHT) = [Set_rest_angle L_spring (- pi / 4)]"
    "handle_event_template (KEYUP K_RIGHT) = [Set_rest_angle R_spring (pi / 6)]"
    "handle_event (KEYUP K_RIGHT) = [Set_rest_angle L_spring (pi / 6)]"
    by (simp_all add: handle_event_def handle_event_template_def)
  show ?thesis
    by (simp only: a [symmetric] b c d e f simp_thms)
qed

subsection \<open>Where a ball is spawned\<close>





subsection \<open>One second of free fall\<close>

lemma space_step_free_fall:
  "space_step free_fall dt w =
     w\<lparr>bodies_heap := (\<lambda>r. if r \<in> set (space_bodies w)
                             then map_option (euler_body (gravity w) dt) (bodies_heap w r)
                             else bodies_heap w r)\<rparr>"
  by (simp add: space_step_def free_fall_def)

lemma euler_falling:
  "euler_body (0, - 900) (1 / 300) (falling_ball x n) = falling_ball x (Suc n)"
  by (simp add: euler_body_def falling_ball_def Let_def field_simps)

lemma step_falls:
  assumes "bodies_heap w r = Some (falling_ball x n)" and "r \<in> set (space_bodies w)"
      and "gravity w = (0, - 900)"
  shows "bodies_heap (space_step free_fall (1 / 300) w) r = Some (falling_ball x (Suc n)) \<and>
         r \<in> set (space_bodies (space_step free_fall (1 / 300) w)) \<and>
         gravity (space_step free_fall (1 / 300) w) = (0, - 900)"
  using assms by (simp add: space_step_free_fall euler_falling)

lemma steps_fall:
  assumes "bodies_heap w r = Some (falling_ball x n)" and "r \<in> set (space_bodies w)"
      and "gravity w = (0, - 900)"
  shows "bodies_heap ((space_step free_fall (1 / 300) ^^ k) w) r = Some (falling_ball x (n + k)) \<and>
         r \<in> set (space_bodies ((space_step free_fall (1 / 300) ^^ k) w)) \<and>
         gravity ((space_step free_fall (1 / 300) ^^ k) w) = (0, - 900)"
proof (induction k)
  case 0
  from assms show ?case by simp
next
  case (Suc k)
  then show ?case using step_falls [of "(space_step free_fall (1 / 300) ^^ k) w" r x "n + k"]
    by simp
qed

lemma frame_falls:
  assumes "bodies_heap w r = Some (falling_ball x n)" and "r \<in> set (space_bodies w)"
      and "gravity w = (0, - 900)"
  shows "\<exists>w'. run free_fall rnd frame_tail w = Inr w' \<and>
           bodies_heap w' r = Some (falling_ball x (n + 5)) \<and>
           r \<in> set (space_bodies w') \<and> gravity w' = (0, - 900)"
proof -
  let ?w = "w\<lparr>drawn := drawn w @ [space_shapes w]\<rparr>"
  from assms have "bodies_heap ?w r = Some (falling_ball x n)" "r \<in> set (space_bodies ?w)"
    "gravity ?w = (0, - 900)"
    by simp_all
  from steps_fall [OF this, of 5] show ?thesis
    by (simp add: run_frame_tail)
qed

lemma frames_fall:
  assumes "bodies_heap w r = Some (falling_ball x n)" and "r \<in> set (space_bodies w)"
      and "gravity w = (0, - 900)"
  shows "\<exists>w'. run free_fall rnd (main_loop (replicate k [])) w = Inr w' \<and>
           bodies_heap w' r = Some (falling_ball x (n + 5 * k)) \<and>
           r \<in> set (space_bodies w') \<and> gravity w' = (0, - 900)"
  using assms
proof (induction k arbitrary: w n)
  case 0
  then show ?case by (simp add: main_loop_def)
next
  case (Suc k)
  from frame_falls [OF Suc.prems] obtain w1 where
    w1: "run free_fall rnd frame_tail w = Inr w1"
      "bodies_heap w1 r = Some (falling_ball x (n + 5))"
      "r \<in> set (space_bodies w1)" "gravity w1 = (0, - 900)"
    by blast
  from Suc.IH [OF w1(2,3,4)] obtain w' where
    w': "run free_fall rnd (main_loop (replicate k [])) w1 = Inr w'"
      "bodies_heap w' r = Some (falling_ball x (n + 5 + 5 * k))"
      "r \<in> set (space_bodies w')" "gravity w' = (0, - 900)"
    by blast
  have "main_loop (replicate (Suc k) []) = frame_tail @ main_loop (replicate k [])"
    by (simp add: main_loop_def main_iteration_def)
  with w1(1) w' show ?case
    by (simp add: run_append add.assoc)
qed

lemma step_calls_main_iteration:
  "step_calls (main_iteration events) = replicate 5 (1 / 60 / 5)"
proof -
  have "step_calls frame_tail = replicate 5 (1 / 60 / 5)"
    by (simp add: frame_tail_eval numeral_eq_Suc)
  then show ?thesis
    by (simp only: main_iteration_def step_calls_append
          step_calls_no_step [OF events_no_step] append_Nil)
qed

text \<open>
  Claim C7. The two-paddle script is started, a ball is spawned at \<open>(300, 750)\<close> in the
  first frame, and 60 frames are run, which are 300 substeps of \<open>1/300\<close> s; the library is
  the integrator of the specification (semi-implicit Euler under the gravity
  \<open>(0, -900)\<close> that \<^verbatim>\<open>main\<close> sets) and the ball touches nothing. Then the ball's body is at
  \<open>y = 750 - 451.5\<close>: its height has decreased by 451.5, which differs from
  \<open>900 / 2 = 450\<close> by no more than \<open>g T dt / 2 = 1.5\<close>, the error of the first-order
  method over one second.
\<close>

theorem free_fall_one_second:
  "\<exists>w bd. run free_fall (\<lambda>k. 300) (main_loop ([KEYDOWN K_SPACE] # replicate 59 []))
             (main_init mfp) = Inr w \<and>
     length (step_calls (main_loop ([KEYDOWN K_SPACE] # replicate 59 []))) = 300 \<and>
     bodies_heap w 17 = Some bd \<and>
     vx (position bd) = 300 \<and> vy (position bd) = 750 - 903 / 2 \<and>
     \<bar>(750 - vy (position bd)) - 450\<bar> \<le> 900 * 1 * (1 / 300) / 2"
proof -
  define w0 where "w0 = add_ball 300 ((main_init mfp)\<lparr>randrange_calls := Suc 0\<rparr>)"
  have split: "main_loop ([KEYDOWN K_SPACE] # replicate 59 []) =
      Add_ball # (frame_tail @ main_loop (replicate 59 []))"
    by (simp add: main_loop_def main_iteration_def handle_event_def)
  have w0: "bodies_heap w0 17 = Some (falling_ball 300 0)" "17 \<in> set (space_bodies w0)"
    "gravity w0 = (0, - 900)"
    by (simp_all add: w0_def add_ball_eval main_init_eval falling_ball_def)
  from frame_falls [OF w0] obtain w1 where
    w1: "run free_fall (\<lambda>k. 300) frame_tail w0 = Inr w1"
      "bodies_heap w1 17 = Some (falling_ball 300 (0 + 5))"
      "17 \<in> set (space_bodies w1)" "gravity w1 = (0, - 900)"
    by blast
  from frames_fall [OF w1(2,3,4), of "\<lambda>k. 300" 59] obtain w where
    w: "run free_fall (\<lambda>k. 300) (main_loop (replicate 59 [])) w1 = Inr w"
      "bodies_heap w 17 = Some (falling_ball 300 (0 + 5 + 5 * 59))"
    by blast
  have run: "run free_fall (\<lambda>k. 300) (main_loop ([KEYDOWN K_SPACE] # replicate 59 []))
             (main_init mfp) = Inr w"
    unfolding split using w1(1) w(1)
    by (simp add: run_append w0_def main_init_eval)
  have n: "length (step_calls (main_loop (evs # replicate k []))) = 5 * Suc k" for evs k
  proof -
    have "step_calls (main_loop evss) = concat (map (\<lambda>_. replicate 5 (1 / 60 / 5)) evss)" for evss
      by (induction evss)
         (simp_all add: main_loop_def step_calls_append step_calls_main_iteration)
    then show ?thesis by (simp add: length_concat sum_list_replicate comp_def)
  qed
  have pos: "position (falling_ball 300 (0 + 5 + 5 * 59)) = (300, 750 - 903 / 2)"
    by (simp add: falling_ball_def)
  from run w(2) pos n [of "[KEYDOWN K_SPACE]" 59] show ?thesis
    by auto
qed

subsection \<open>Degenerate geometry\<close>









end
